theory Spec2Isabelle
  imports Main
begin

section \<open>Data model\<close>

text \<open>
  The handler \<open>updateProduct\<close> of \<open>server/src/handlers/dummy_handler.ts\<close> performs a
  partial update of one row of the products table. The types below follow
  \<open>server/src/schema.ts\<close>.

  A row as the query builder returns it and the \<open>Product\<close> the handler returns differ only
  in the type of \<open>price\<close> (text in the row, a native number in the \<open>Product\<close>), so both are
  one record with the price type as parameter. The field \<open>id\<close> is written \<open>prod_id\<close>
  because \<open>id\<close> is the identity function of HOL. An \<open>id\<close> is an integer, as the key
  of the table is. A \<open>Date\<close> is its epoch time.
\<close>

type_synonym date = int

record 'p product =
  prod_id :: int
  name :: string
  description :: "string option"
  price :: 'p
  stock_quantity :: int
  created_at :: date

type_synonym row = "string product"

text \<open>
  \<open>UpdateProductInput\<close>: \<open>id\<close> and four optional fields. \<open>None\<close> is \<open>undefined\<close> (the
  field is omitted); for \<open>description\<close>, \<open>Some None\<close> is an explicit \<open>null\<close> and
  \<open>Some (Some s)\<close> a text. The native number type of JavaScript is the type parameter
  \<open>'n\<close>: the handler only passes a price to \<open>toString\<close> and reads one back with
  \<open>parseFloat\<close>.
\<close>

record 'n UpdateProductInput =
  in_id :: int
  in_name :: "string option"
  in_description :: "string option option"
  in_price :: "'n option"
  in_stock_quantity :: "int option"

text \<open>
  The values the handler stores under the keys of \<open>toUpdate: Record<string, any>\<close>, and
  the object itself as the list of its own properties in insertion order.
\<close>

datatype js_value = JsString string | JsNull | JsNumber int | JsDate date

type_synonym change_set = "(string \<times> js_value) list"

text \<open>\<open>toUpdate[k] = v\<close>: an existing property keeps its place, a new one is appended.\<close>

fun assign :: "string \<Rightarrow> js_value \<Rightarrow> change_set \<Rightarrow> change_set" where
  "assign k v [] = [(k, v)]"
| "assign k v ((k', v') # kvs) =
     (if k = k' then (k, v) # kvs else (k', v') # assign k v kvs)"

text \<open>
  What is thrown: \<open>Error msg\<close> is the \<open>new Error(msg)\<close> of the handler, \<open>StoreFailure\<close>
  whatever the store client throws (connectivity, constraint violation).
\<close>

datatype error = Error string | StoreFailure string

text \<open>The statements the handler sends to the store through the query builder.\<close>

datatype stmt = SelectWhereId int | UpdateWhereId int change_set

text \<open>
  The world the handler runs in. Modelled from the spec: the state of the Record Store,
  that is the products table, the failure (if any) with which the store answers a
  statement, and the statements it has received so far. Beside it, what \<open>console.error\<close>
  has printed.
\<close>

record world =
  products :: "row list"
  fault :: "string option"
  statements :: "stmt list"
  console :: "(string \<times> error) list"

text \<open>
  What the handler takes from outside this repository's sources: \<open>Number.prototype.toString\<close>
  and \<open>parseFloat\<close> of JavaScript, and the text under which the numeric column of the
  table keeps a price it is sent.
\<close>

record 'n collaborators =
  toString :: "'n \<Rightarrow> string"
  parseFloat :: "string \<Rightarrow> 'n"
  numeric_in :: "string \<Rightarrow> string"

section \<open>Rendering an id in a template literal\<close>

text \<open>
  \<open>`${id}`\<close> for an integer: its decimal digits, with a minus sign when negative (as
  JavaScript prints every integer below \<open>10^21\<close> in absolute value).
\<close>

definition digit_char :: "nat \<Rightarrow> char" where
  "digit_char d = ''0123456789'' ! d"

fun nat_digits :: "nat \<Rightarrow> string" where
  "nat_digits n =
     (if n < 10 then [digit_char n] else nat_digits (n div 10) @ [digit_char (n mod 10)])"

definition int_to_string :: "int \<Rightarrow> string" where
  "int_to_string i = (if i < 0 then CHR ''-'' # nat_digits (nat (- i)) else nat_digits (nat i))"

definition not_found_message :: "int \<Rightarrow> string" where
  "not_found_message i = ''Product with ID '' @ int_to_string i @ '' not found.''"

definition log_prefix :: "int \<Rightarrow> string" where
  "log_prefix i = ''Error updating product with ID '' @ int_to_string i @ '':''"

section \<open>The Record Store\<close>

text \<open>
  Modelled from the spec: the Record Store (the query builder, the database and
  \<open>db/schema.ts\<close> are not among the sources). Section 6 of the spec: a conditional read
  returning the records matching an identifier, and a conditional update that applies a
  partial field set to the records matching an identifier and returns the resulting
  records, empty if none matched. A statement the store fails on changes nothing.
  \<open>set_column\<close> writes one entry of a field set into a row; it can write every column,
  \<open>id\<close> and \<open>created_at\<close> too. An entry that names no column or carries a value of the
  wrong type is left out (the handler builds none, see \<open>build_toUpdate_typed\<close>).
\<close>

fun set_column :: "(string \<Rightarrow> string) \<Rightarrow> string \<times> js_value \<Rightarrow> row \<Rightarrow> row" where
  "set_column enc (k, JsString s) r =
     (if k = ''name'' then r\<lparr>name := s\<rparr>
      else if k = ''description'' then r\<lparr>description := Some s\<rparr>
      else if k = ''price'' then r\<lparr>price := enc s\<rparr>
      else r)"
| "set_column enc (k, JsNull) r =
     (if k = ''description'' then r\<lparr>description := None\<rparr> else r)"
| "set_column enc (k, JsNumber n) r =
     (if k = ''stock_quantity'' then r\<lparr>stock_quantity := n\<rparr>
      else if k = ''id'' then r\<lparr>prod_id := n\<rparr>
      else r)"
| "set_column enc (k, JsDate d) r =
     (if k = ''created_at'' then r\<lparr>created_at := d\<rparr> else r)"

text \<open>
  Modelled from the spec: \<open>.set(toUpdate)\<close> on one row, the entries written in the order
  of the object's properties.
\<close>

definition set_columns :: "(string \<Rightarrow> string) \<Rightarrow> change_set \<Rightarrow> row \<Rightarrow> row" where
  "set_columns enc cs r = fold (set_column enc) cs r"

text \<open>
  Modelled from the spec: the conditional read of the Record Store,
  \<open>db.select().from(productsTable).where(eq(productsTable.id, id)).execute()\<close>.
\<close>

definition db_select :: "int \<Rightarrow> world \<Rightarrow> (error + row list) \<times> world" where
  "db_select i w =
     (let w' = w\<lparr>statements := statements w @ [SelectWhereId i]\<rparr>
      in case fault w of
           Some e \<Rightarrow> (Inl (StoreFailure e), w')
         | None \<Rightarrow> (Inr (filter (\<lambda>r. prod_id r = i) (products w)), w'))"

text \<open>
  Modelled from the spec: the conditional update of the Record Store,
  \<open>db.update(productsTable).set(toUpdate).where(eq(productsTable.id, id)).returning().execute()\<close>.
\<close>

definition db_update :: "(string \<Rightarrow> string) \<Rightarrow> int \<Rightarrow> change_set \<Rightarrow> world \<Rightarrow> (error + row list) \<times> world" where
  "db_update enc i cs w =
     (let w' = w\<lparr>statements := statements w @ [UpdateWhereId i cs]\<rparr>
      in case fault w of
           Some e \<Rightarrow> (Inl (StoreFailure e), w')
         | None \<Rightarrow>
             (Inr (map (set_columns enc cs) (filter (\<lambda>r. prod_id r = i) (products w))),
              w'\<lparr>products :=
                    map (\<lambda>r. if prod_id r = i then set_columns enc cs r else r) (products w)\<rparr>))"

section \<open>The handler\<close>

text \<open>Lines 16 to 32: the change-set, one \<open>if (field !== undefined)\<close> after the other.\<close>

definition build_toUpdate :: "'n collaborators \<Rightarrow> 'n UpdateProductInput \<Rightarrow> change_set" where
  "build_toUpdate X input =
     (let toUpdate = [];
          toUpdate = (case in_name input of
                        None \<Rightarrow> toUpdate
                      | Some v \<Rightarrow> assign ''name'' (JsString v) toUpdate);
          toUpdate = (case in_description input of
                        None \<Rightarrow> toUpdate
                      | Some None \<Rightarrow> assign ''description'' JsNull toUpdate
                      | Some (Some v) \<Rightarrow> assign ''description'' (JsString v) toUpdate);
          toUpdate = (case in_price input of
                        None \<Rightarrow> toUpdate
                      | Some v \<Rightarrow> assign ''price'' (JsString (toString X v)) toUpdate);
          toUpdate = (case in_stock_quantity input of
                        None \<Rightarrow> toUpdate
                      | Some v \<Rightarrow> assign ''stock_quantity'' (JsNumber v) toUpdate)
      in toUpdate)"

text \<open>\<open>{ ...row, price: parseFloat(row.price) }\<close>.\<close>

definition to_product :: "'n collaborators \<Rightarrow> row \<Rightarrow> 'n product" where
  "to_product X r =
     \<lparr>prod_id = prod_id r, name = name r, description = description r,
      price = parseFloat X (price r), stock_quantity = stock_quantity r,
      created_at = created_at r\<rparr>"

text \<open>Lines 15 to 70, the body of the \<open>try\<close> block.\<close>

definition updateProduct_try ::
  "'n collaborators \<Rightarrow> 'n UpdateProductInput \<Rightarrow> world \<Rightarrow> (error + 'n product) \<times> world" where
  "updateProduct_try X input w =
     (let i = in_id input;
          toUpdate = build_toUpdate X input
      in if length toUpdate = 0 then
           (case db_select i w of
              (Inl err, w') \<Rightarrow> (Inl err, w')
            | (Inr existingProduct, w') \<Rightarrow>
                if length existingProduct = 0 then (Inl (Error (not_found_message i)), w')
                else (Inr (to_product X (existingProduct ! 0)), w'))
         else
           (case db_update (numeric_in X) i toUpdate w of
              (Inl err, w') \<Rightarrow> (Inl err, w')
            | (Inr result, w') \<Rightarrow>
                if length result = 0 then (Inl (Error (not_found_message i)), w')
                else (Inr (to_product X (result ! 0)), w')))"

text \<open>\<open>console.error(`Error updating product with ID ${input.id}:`, error)\<close>.\<close>

definition console_error :: "string \<Rightarrow> error \<Rightarrow> world \<Rightarrow> world" where
  "console_error msg err w = w\<lparr>console := console w @ [(msg, err)]\<rparr>"

text \<open>Lines 13 to 75: the \<open>try\<close> block and its \<open>catch\<close>, which logs and rethrows.\<close>

definition updateProduct ::
  "'n collaborators \<Rightarrow> 'n UpdateProductInput \<Rightarrow> world \<Rightarrow> (error + 'n product) \<times> world" where
  "updateProduct X input w =
     (case updateProduct_try X input w of
        (Inl err, w') \<Rightarrow> (Inl err, console_error (log_prefix (in_id input)) err w')
      | (Inr p, w') \<Rightarrow> (Inr p, w'))"

section \<open>Observations used in the statements\<close>

text \<open>The writes among the statements the store has received.\<close>

fun is_write :: "stmt \<Rightarrow> bool" where
  "is_write (SelectWhereId i) = False"
| "is_write (UpdateWhereId i cs) = True"

definition writes :: "world \<Rightarrow> nat" where
  "writes w = length (filter is_write (statements w))"

text \<open>
  \<open>unchanged_outside input r r'\<close>: the stored record \<open>r'\<close> differs from \<open>r\<close> at most in the
  fields the request supplies, and not at all when the request is for another id.
\<close>

definition unchanged_outside :: "'n UpdateProductInput \<Rightarrow> row \<Rightarrow> row \<Rightarrow> bool" where
  "unchanged_outside input r r' \<longleftrightarrow>
     prod_id r' = prod_id r \<and> created_at r' = created_at r \<and>
     (in_name input = None \<longrightarrow> name r' = name r) \<and>
     (in_description input = None \<longrightarrow> description r' = description r) \<and>
     (in_price input = None \<longrightarrow> price r' = price r) \<and>
     (in_stock_quantity input = None \<longrightarrow> stock_quantity r' = stock_quantity r) \<and>
     (prod_id r \<noteq> in_id input \<longrightarrow> r' = r)"

section \<open>A concrete instance\<close>

text \<open>
  Prices that are whole numbers: JavaScript prints them in decimal digits and
  \<open>parseFloat\<close> reads the digits back; the column keeps the text it is sent.
\<close>

definition digit_value :: "char \<Rightarrow> nat" where
  "digit_value c = of_char c - 48"

definition parse_nat :: "string \<Rightarrow> nat" where
  "parse_nat s = foldl (\<lambda>a c. 10 * a + digit_value c) 0 s"

fun parse_int :: "string \<Rightarrow> int" where
  "parse_int [] = 0"
| "parse_int (c # cs) = (if c = CHR ''-'' then - int (parse_nat cs) else int (parse_nat (c # cs)))"

definition whole_numbers :: "int collaborators" where
  "whole_numbers = \<lparr>toString = int_to_string, parseFloat = parse_int, numeric_in = (\<lambda>s. s)\<rparr>"

text \<open>The store of the scenarios of the spec, with a second product beside the first.\<close>

definition product_1 :: row where
  "product_1 = \<lparr>prod_id = 1, name = ''A'', description = Some ''d'', price = ''50'',
                 stock_quantity = 10, created_at = 1700000000\<rparr>"

definition product_2 :: row where
  "product_2 = \<lparr>prod_id = 2, name = ''C'', description = None, price = ''7'',
                 stock_quantity = 3, created_at = 1700000001\<rparr>"

definition shop :: world where
  "shop = \<lparr>products = [product_1, product_2], fault = None, statements = [], console = []\<rparr>"

definition only_id :: "int \<Rightarrow> int UpdateProductInput" where
  "only_id i = \<lparr>in_id = i, in_name = None, in_description = None, in_price = None,
                in_stock_quantity = None\<rparr>"

section \<open>The handler, outcome and effects\<close>

declare nat_digits.simps [simp del]

lemma build_toUpdate_eq:
  "build_toUpdate X input =
     (case in_name input of None \<Rightarrow> [] | Some v \<Rightarrow> [(''name'', JsString v)]) @
     (case in_description input of None \<Rightarrow> []
        | Some d \<Rightarrow> [(''description'', case d of None \<Rightarrow> JsNull | Some s \<Rightarrow> JsString s)]) @
     (case in_price input of None \<Rightarrow> [] | Some p \<Rightarrow> [(''price'', JsString (toString X p))]) @
     (case in_stock_quantity input of None \<Rightarrow> [] | Some q \<Rightarrow> [(''stock_quantity'', JsNumber q)])"
  by (simp add: build_toUpdate_def split: option.splits)

lemma build_toUpdate_Nil:
  "build_toUpdate X input = [] \<longleftrightarrow>
     in_name input = None \<and> in_description input = None \<and> in_price input = None \<and>
     in_stock_quantity input = None"
  by (simp add: build_toUpdate_eq split: option.splits)

text \<open>Every entry the handler builds names a column and carries a value of its type.\<close>

lemma build_toUpdate_typed:
  "(k, v) \<in> set (build_toUpdate X input) \<Longrightarrow>
     (k = ''name'' \<and> (\<exists>s. v = JsString s)) \<or>
     (k = ''description'' \<and> (v = JsNull \<or> (\<exists>s. v = JsString s))) \<or>
     (k = ''price'' \<and> (\<exists>s. v = JsString s)) \<or>
     (k = ''stock_quantity'' \<and> (\<exists>n. v = JsNumber n))"
  unfolding build_toUpdate_eq
  by (cases "in_name input"; cases "in_description input"; cases "in_price input";
      cases "in_stock_quantity input")
     (fastforce split: option.splits)+

lemma set_columns_build:
  "set_columns (numeric_in X) (build_toUpdate X input) r =
     r\<lparr>name := (case in_name input of None \<Rightarrow> name r | Some v \<Rightarrow> v),
       description := (case in_description input of None \<Rightarrow> description r | Some d \<Rightarrow> d),
       price := (case in_price input of None \<Rightarrow> price r
                 | Some p \<Rightarrow> numeric_in X (toString X p)),
       stock_quantity := (case in_stock_quantity input of None \<Rightarrow> stock_quantity r | Some q \<Rightarrow> q)\<rparr>"
  by (simp add: build_toUpdate_eq set_columns_def split: option.splits)

lemma map_no_match:
  "filter (\<lambda>r. prod_id r = i) rs = [] \<Longrightarrow> map (\<lambda>r. if prod_id r = i then f r else r) rs = rs"
  by (induction rs) (auto split: if_splits)

lemma outcome_updateProduct:
  "fst (updateProduct X input w) =
     (case fault w of
        Some e \<Rightarrow> Inl (StoreFailure e)
      | None \<Rightarrow>
          (case filter (\<lambda>r. prod_id r = in_id input) (products w) of
             [] \<Rightarrow> Inl (Error (not_found_message (in_id input)))
           | r # rs \<Rightarrow>
               Inr (to_product X
                     (if build_toUpdate X input = [] then r
                      else set_columns (numeric_in X) (build_toUpdate X input) r))))"
  by (simp add: updateProduct_def updateProduct_try_def db_select_def db_update_def Let_def
      split: option.splits list.splits)

lemma statements_updateProduct:
  "statements (snd (updateProduct X input w)) =
     statements w @
       [if build_toUpdate X input = [] then SelectWhereId (in_id input)
        else UpdateWhereId (in_id input) (build_toUpdate X input)]"
  by (simp add: updateProduct_def updateProduct_try_def db_select_def db_update_def Let_def
      console_error_def split: option.splits list.splits)

lemma products_updateProduct:
  "products (snd (updateProduct X input w)) =
     (if fault w = None \<and> build_toUpdate X input \<noteq> []
      then map (\<lambda>r. if prod_id r = in_id input
                     then set_columns (numeric_in X) (build_toUpdate X input) r else r)
               (products w)
      else products w)"
  by (simp add: updateProduct_def updateProduct_try_def db_select_def db_update_def Let_def
      console_error_def split: option.splits list.splits)

lemma fault_updateProduct:
  "fault (snd (updateProduct X input w)) = fault w"
  by (simp add: updateProduct_def updateProduct_try_def db_select_def db_update_def Let_def
      console_error_def split: option.splits list.splits)

lemma console_updateProduct:
  "console (snd (updateProduct X input w)) =
     console w @
       (case fst (updateProduct X input w) of
          Inl err \<Rightarrow> [(log_prefix (in_id input), err)]
        | Inr p \<Rightarrow> [])"
  by (simp add: updateProduct_def updateProduct_try_def db_select_def db_update_def Let_def
      console_error_def split: option.splits list.splits)

lemma filter_id_Nil: "filter (\<lambda>r. prod_id r = i) rs = [] \<longleftrightarrow> i \<notin> prod_id ` set rs"
  by (auto simp add: filter_empty_conv)

lemma find_filter:
  "find P xs = Some r \<Longrightarrow> \<exists>rs. filter P xs = r # rs"
  by (induction xs) (auto split: if_splits)

lemma writes_updateProduct:
  "writes (snd (updateProduct X input w)) =
     (if build_toUpdate X input = [] then writes w else writes w + 1)"
  by (simp add: writes_def statements_updateProduct)

lemma unchanged_outside_refl: "unchanged_outside input r r"
  by (simp add: unchanged_outside_def)

lemma unchanged_outside_set_columns:
  "prod_id r = in_id input \<Longrightarrow>
     unchanged_outside input r (set_columns (numeric_in X) (build_toUpdate X input) r)"
  by (simp add: unchanged_outside_def set_columns_build)

lemma digit_cases:
  "d < 10 \<Longrightarrow> d = 0 \<or> d = 1 \<or> d = 2 \<or> d = 3 \<or> d = 4 \<or> d = 5 \<or> d = 6 \<or> d = 7 \<or> d = 8 \<or> d = (9::nat)"
  by arith

lemma digit_value_digit_char: "d < 10 \<Longrightarrow> digit_value (digit_char d) = d"
  using digit_cases [of d] by (auto simp add: digit_value_def digit_char_def)

lemma digit_char_inj: "a < 10 \<Longrightarrow> b < 10 \<Longrightarrow> digit_char a = digit_char b \<Longrightarrow> a = b"
  by (metis digit_value_digit_char)

lemma digit_char_not_minus: "d < 10 \<Longrightarrow> digit_char d \<noteq> CHR ''-''"
  using digit_cases [of d] by (auto simp add: digit_char_def)

lemma nat_digits_not_Nil: "nat_digits n \<noteq> []"
  by (subst nat_digits.simps) simp

lemma hd_nat_digits_not_minus: "hd (nat_digits n) \<noteq> CHR ''-''"
proof (induction n rule: nat_digits.induct)
  case (1 n)
  show ?case
  proof (cases "n < 10")
    case True
    then show ?thesis
      by (subst nat_digits.simps) (simp add: digit_char_not_minus)
  next
    case False
    with 1 show ?thesis
      by (subst nat_digits.simps) (simp add: nat_digits_not_Nil)
  qed
qed

lemma nat_digits_inj: "nat_digits n = nat_digits m \<Longrightarrow> n = m"
proof (induction n arbitrary: m rule: nat_digits.induct)
  case (1 n)
  show ?case
  proof (cases "n < 10")
    case n: True
    show ?thesis
    proof (cases "m < 10")
      case True
      with n "1.prems" show ?thesis
        by (simp add: nat_digits.simps [of n] nat_digits.simps [of m] digit_char_inj)
    next
      case False
      with n "1.prems" show ?thesis
        by (simp add: nat_digits.simps [of n] nat_digits.simps [of m] nat_digits_not_Nil
            nat_digits_not_Nil [symmetric])
    qed
  next
    case n: False
    show ?thesis
    proof (cases "m < 10")
      case True
      with n "1.prems" show ?thesis
        by (simp add: nat_digits.simps [of n] nat_digits.simps [of m] nat_digits_not_Nil
            nat_digits_not_Nil [symmetric])
    next
      case False
      with n "1.prems" have "nat_digits (n div 10) = nat_digits (m div 10)"
        and "digit_char (n mod 10) = digit_char (m mod 10)"
        by (simp_all add: nat_digits.simps [of n] nat_digits.simps [of m])
      with n "1.IH" have "n div 10 = m div 10" and "n mod 10 = m mod 10"
        by (simp_all add: digit_char_inj)
      then show ?thesis
        by (metis div_mult_mod_eq)
    qed
  qed
qed

lemma int_to_string_inj: "int_to_string i = int_to_string j \<Longrightarrow> i = j"
proof -
  assume eq: "int_to_string i = int_to_string j"
  have neg: "hd (int_to_string k) = CHR ''-'' \<longleftrightarrow> k < 0" for k
    by (simp add: int_to_string_def hd_nat_digits_not_minus)
  from eq neg [of i] neg [of j] have same: "i < 0 \<longleftrightarrow> j < 0"
    by simp
  show "i = j"
  proof (cases "i < 0")
    case True
    with same eq have "nat (- i) = nat (- j)"
      by (simp add: int_to_string_def nat_digits_inj)
    with True same show ?thesis by simp
  next
    case False
    with same eq have "nat i = nat j"
      by (simp add: int_to_string_def nat_digits_inj)
    with False same show ?thesis by simp
  qed
qed

lemma not_found_message_inj: "not_found_message i = not_found_message j \<Longrightarrow> i = j"
  by (simp add: not_found_message_def int_to_string_inj)

section \<open>The change-set\<close>

text \<open>
  C1. For every request, the change-set that \<open>updateProduct\<close> builds holds exactly the
  fields that are not omitted: \<open>name\<close> if and only if the request has a value for it,
  \<open>description\<close> if and only if it is not omitted (a text is forwarded as that text, an
  explicit null as null), \<open>price\<close> if and only if present (as the text \<open>toString\<close> gives),
  \<open>stock_quantity\<close> if and only if present; no other key enters it, and no key twice.
\<close>

theorem change_set_holds_exactly_the_supplied_fields:
  "(''name'' \<in> fst ` set (build_toUpdate X input) \<longleftrightarrow> in_name input \<noteq> None) \<and>
   (''description'' \<in> fst ` set (build_toUpdate X input) \<longleftrightarrow> in_description input \<noteq> None) \<and>
   (''price'' \<in> fst ` set (build_toUpdate X input) \<longleftrightarrow> in_price input \<noteq> None) \<and>
   (''stock_quantity'' \<in> fst ` set (build_toUpdate X input) \<longleftrightarrow>
      in_stock_quantity input \<noteq> None) \<and>
   fst ` set (build_toUpdate X input) \<subseteq> {''name'', ''description'', ''price'', ''stock_quantity''} \<and>
   distinct (map fst (build_toUpdate X input)) \<and>
   map_of (build_toUpdate X input) ''name'' = map_option JsString (in_name input) \<and>
   map_of (build_toUpdate X input) ''description'' =
     map_option (\<lambda>d. case d of None \<Rightarrow> JsNull | Some s \<Rightarrow> JsString s) (in_description input) \<and>
   map_of (build_toUpdate X input) ''price'' =
     map_option (\<lambda>p. JsString (toString X p)) (in_price input) \<and>
   map_of (build_toUpdate X input) ''stock_quantity'' =
     map_option JsNumber (in_stock_quantity input)"
  unfolding build_toUpdate_eq
  by (cases "in_name input"; cases "in_description input"; cases "in_price input";
      cases "in_stock_quantity input") simp_all

theorem change_set_holds_exactly_the_supplied_fields_witness:
  "fst ` set (build_toUpdate whole_numbers
       ((only_id 1)\<lparr>in_description := Some None, in_price := Some 12\<rparr>)) =
     {''description'', ''price''} \<and>
   map_of (build_toUpdate whole_numbers
       ((only_id 1)\<lparr>in_description := Some None, in_price := Some 12\<rparr>)) ''price'' =
     Some (JsString ''12'')"
  using change_set_holds_exactly_the_supplied_fields
    [of whole_numbers "(only_id 1)\<lparr>in_description := Some None, in_price := Some 12\<rparr>"]
  by (simp add: build_toUpdate_eq only_id_def whole_numbers_def int_to_string_def
      nat_digits.simps digit_char_def)

section \<open>Not found\<close>

text \<open>
  C2. When the store answers the statement (it raises no failure of its own): for every
  request whose \<open>id\<close> matches no stored product, \<open>updateProduct\<close> fails with the
  not-found error, whether the change-set is empty (the read finds nothing) or not (the
  update matches no row); for every request whose \<open>id\<close> matches one, it returns a
  product, that of this \<open>id\<close>. And when the \<open>id\<close> matches, no \<open>Error\<close> of the handler is
  raised, whatever the store does.
\<close>

theorem not_found_exactly_when_id_is_absent:
  "(in_id input \<notin> prod_id ` set (products w) \<and> fault w = None \<longrightarrow>
      fst (updateProduct X input w) = Inl (Error (not_found_message (in_id input)))) \<and>
   (in_id input \<in> prod_id ` set (products w) \<and> fault w = None \<longrightarrow>
      (\<exists>p. fst (updateProduct X input w) = Inr p \<and> prod_id p = in_id input)) \<and>
   (in_id input \<in> prod_id ` set (products w) \<longrightarrow>
      (\<forall>m. fst (updateProduct X input w) \<noteq> Inl (Error m)))"
proof (cases "filter (\<lambda>r. prod_id r = in_id input) (products w)")
  case Nil
  then have "in_id input \<notin> prod_id ` set (products w)"
    by (simp add: filter_id_Nil)
  with Nil show ?thesis
    by (simp add: outcome_updateProduct split: option.splits)
next
  case (Cons r rs)
  then have "r \<in> set (filter (\<lambda>r. prod_id r = in_id input) (products w))"
    by simp
  then have r: "r \<in> set (products w)" "prod_id r = in_id input"
    by simp_all
  then have "in_id input \<in> prod_id ` set (products w)"
    by force
  with Cons r show ?thesis
    by (simp add: outcome_updateProduct set_columns_build to_product_def split: option.splits)
qed

theorem not_found_exactly_when_id_is_absent_witness:
  "fst (updateProduct whole_numbers (only_id 999) shop) =
     Inl (Error ''Product with ID 999 not found.'') \<and>
   fst (updateProduct whole_numbers ((only_id 999)\<lparr>in_name := Some ''B''\<rparr>) shop) =
     Inl (Error ''Product with ID 999 not found.'') \<and>
   (\<exists>p. fst (updateProduct whole_numbers ((only_id 2)\<lparr>in_name := Some ''B''\<rparr>) shop) = Inr p \<and> prod_id p = 2)"
  using not_found_exactly_when_id_is_absent [of "only_id 999" shop whole_numbers]
    not_found_exactly_when_id_is_absent [of "(only_id 999)\<lparr>in_name := Some ''B''\<rparr>" shop whole_numbers]
    not_found_exactly_when_id_is_absent [of "(only_id 2)\<lparr>in_name := Some ''B''\<rparr>" shop whole_numbers]
  by (simp add: only_id_def shop_def product_1_def product_2_def not_found_message_def
      int_to_string_def nat_digits.simps digit_char_def)

section \<open>Frame\<close>

text \<open>
  C3. After any call, each stored record differs from what it was before the call at most
  in the fields the request supplies: \<open>id\<close> and \<open>created_at\<close> are never written,
  every omitted field keeps its stored value, and the records of other ids are untouched.
\<close>

theorem omitted_fields_keep_their_stored_value:
  "list_all2 (unchanged_outside input) (products w) (products (snd (updateProduct X input w)))"
  by (simp add: products_updateProduct list_all2_map2 list_all2_same
      unchanged_outside_refl unchanged_outside_set_columns)

theorem omitted_fields_keep_their_stored_value_witness:
  "products (snd (updateProduct whole_numbers
       ((only_id 1)\<lparr>in_name := Some ''B'', in_stock_quantity := Some 60\<rparr>) shop)) =
     [product_1\<lparr>name := ''B'', stock_quantity := 60\<rparr>, product_2] \<and>
   list_all2 (unchanged_outside ((only_id 1)\<lparr>in_name := Some ''B'', in_stock_quantity := Some 60\<rparr>))
     [product_1, product_2] [product_1\<lparr>name := ''B'', stock_quantity := 60\<rparr>, product_2]"
  using omitted_fields_keep_their_stored_value
    [of "(only_id 1)\<lparr>in_name := Some ''B'', in_stock_quantity := Some 60\<rparr>" shop whole_numbers]
  by (simp add: products_updateProduct set_columns_build build_toUpdate_Nil
      only_id_def shop_def product_1_def product_2_def)

section \<open>Writes\<close>

text \<open>
  C4. A request that supplies only \<open>id\<close>, for a product that exists, returns the stored
  record of that \<open>id\<close> unchanged: the same \<open>id\<close>, \<open>name\<close>, \<open>description\<close>,
  \<open>stock_quantity\<close> and \<open>created_at\<close>, and as \<open>price\<close> the stored text read by
  \<open>parseFloat\<close>. It leaves the world as it was but for one read: the table is the same
  and no write reaches the store. Every other call that returns a product makes exactly
  one write. Every call makes zero or one write, and sends the store one statement.
\<close>

theorem zero_or_one_write:
  "(in_name input = None \<and> in_description input = None \<and> in_price input = None \<and>
    in_stock_quantity input = None \<and> fault w = None \<and>
    find (\<lambda>r. prod_id r = in_id input) (products w) = Some r \<longrightarrow>
      updateProduct X input w =
        (Inr \<lparr>prod_id = prod_id r, name = name r, description = description r,
              price = parseFloat X (price r), stock_quantity = stock_quantity r,
              created_at = created_at r\<rparr>,
         w\<lparr>statements := statements w @ [SelectWhereId (in_id input)]\<rparr>) \<and>
      r \<in> set (products w) \<and> prod_id r = in_id input \<and>
      products (snd (updateProduct X input w)) = products w \<and>
      writes (snd (updateProduct X input w)) = writes w) \<and>
   (\<not> (in_name input = None \<and> in_description input = None \<and> in_price input = None \<and>
       in_stock_quantity input = None) \<and>
    (\<exists>p. fst (updateProduct X input w) = Inr p) \<longrightarrow>
      writes (snd (updateProduct X input w)) = writes w + 1) \<and>
   (writes (snd (updateProduct X input w)) = writes w \<or>
    writes (snd (updateProduct X input w)) = writes w + 1) \<and>
   length (statements (snd (updateProduct X input w))) = length (statements w) + 1"
proof (intro conjI impI)
  assume h: "in_name input = None \<and> in_description input = None \<and> in_price input = None \<and>
    in_stock_quantity input = None \<and> fault w = None \<and>
    find (\<lambda>r. prod_id r = in_id input) (products w) = Some r"
  then have empty: "build_toUpdate X input = []"
    by (simp add: build_toUpdate_Nil)
  from h obtain rs where hit: "filter (\<lambda>r. prod_id r = in_id input) (products w) = r # rs"
    using find_filter by fastforce
  with h empty show "updateProduct X input w =
        (Inr \<lparr>prod_id = prod_id r, name = name r, description = description r,
              price = parseFloat X (price r), stock_quantity = stock_quantity r,
              created_at = created_at r\<rparr>,
         w\<lparr>statements := statements w @ [SelectWhereId (in_id input)]\<rparr>)"
    by (simp add: updateProduct_def updateProduct_try_def db_select_def to_product_def Let_def)
  from hit have "r \<in> set (filter (\<lambda>r. prod_id r = in_id input) (products w))"
    by simp
  then show "r \<in> set (products w)" and "prod_id r = in_id input"
    by simp_all
  from empty show "products (snd (updateProduct X input w)) = products w"
    by (simp add: products_updateProduct)
  from empty show "writes (snd (updateProduct X input w)) = writes w"
    by (simp add: writes_updateProduct)
next
  assume "\<not> (in_name input = None \<and> in_description input = None \<and> in_price input = None \<and>
       in_stock_quantity input = None) \<and> (\<exists>p. fst (updateProduct X input w) = Inr p)"
  then have "build_toUpdate X input \<noteq> []"
    by (simp add: build_toUpdate_Nil)
  then show "writes (snd (updateProduct X input w)) = writes w + 1"
    by (simp add: writes_updateProduct)
next
  show "writes (snd (updateProduct X input w)) = writes w \<or>
    writes (snd (updateProduct X input w)) = writes w + 1"
    by (simp add: writes_updateProduct)
next
  show "length (statements (snd (updateProduct X input w))) = length (statements w) + 1"
    by (simp add: statements_updateProduct)
qed

theorem zero_or_one_write_witness:
  "updateProduct whole_numbers (only_id 1) shop =
     (Inr \<lparr>prod_id = 1, name = ''A'', description = Some ''d'', price = 50,
           stock_quantity = 10, created_at = 1700000000\<rparr>,
      shop\<lparr>statements := [SelectWhereId 1]\<rparr>) \<and>
   updateProduct whole_numbers (only_id 2) shop =
     (Inr \<lparr>prod_id = 2, name = ''C'', description = None, price = 7,
           stock_quantity = 3, created_at = 1700000001\<rparr>,
      shop\<lparr>statements := [SelectWhereId 2]\<rparr>) \<and>
   writes (snd (updateProduct whole_numbers (only_id 2) shop)) = 0 \<and>
   writes (snd (updateProduct whole_numbers ((only_id 1)\<lparr>in_stock_quantity := Some 0\<rparr>) shop)) = 1"
proof (intro conjI)
  have read_1: "in_name (only_id 1) = None \<and> in_description (only_id 1) = None \<and>
      in_price (only_id 1) = None \<and> in_stock_quantity (only_id 1) = None \<and> fault shop = None \<and>
      find (\<lambda>r. prod_id r = in_id (only_id 1)) (products shop) = Some product_1"
    by (simp add: only_id_def shop_def product_1_def product_2_def)
  have read_2: "in_name (only_id 2) = None \<and> in_description (only_id 2) = None \<and>
      in_price (only_id 2) = None \<and> in_stock_quantity (only_id 2) = None \<and> fault shop = None \<and>
      find (\<lambda>r. prod_id r = in_id (only_id 2)) (products shop) = Some product_2"
    by (simp add: only_id_def shop_def product_1_def product_2_def)
  have write_1: "\<not> (in_name ((only_id 1)\<lparr>in_stock_quantity := Some 0\<rparr>) = None \<and>
        in_description ((only_id 1)\<lparr>in_stock_quantity := Some 0\<rparr>) = None \<and>
        in_price ((only_id 1)\<lparr>in_stock_quantity := Some 0\<rparr>) = None \<and>
        in_stock_quantity ((only_id 1)\<lparr>in_stock_quantity := Some 0\<rparr>) = None) \<and>
      (\<exists>p. fst (updateProduct whole_numbers
          ((only_id 1)\<lparr>in_stock_quantity := Some 0\<rparr>) shop) = Inr p)"
    by (simp add: outcome_updateProduct only_id_def shop_def product_1_def product_2_def)
  have none_yet: "writes shop = 0"
    by (simp add: writes_def shop_def)

  have "updateProduct whole_numbers (only_id 1) shop =
     (Inr \<lparr>prod_id = prod_id product_1, name = name product_1,
           description = description product_1,
           price = parseFloat whole_numbers (price product_1),
           stock_quantity = stock_quantity product_1, created_at = created_at product_1\<rparr>,
      shop\<lparr>statements := statements shop @ [SelectWhereId (in_id (only_id 1))]\<rparr>)"
    using zero_or_one_write [of "only_id 1" shop product_1 whole_numbers] read_1 by blast
  also have "\<dots> =
     (Inr \<lparr>prod_id = 1, name = ''A'', description = Some ''d'', price = 50,
           stock_quantity = 10, created_at = 1700000000\<rparr>,
      shop\<lparr>statements := [SelectWhereId 1]\<rparr>)"
    by (simp add: only_id_def shop_def product_1_def whole_numbers_def parse_nat_def
        digit_value_def)
  finally show "updateProduct whole_numbers (only_id 1) shop =
     (Inr \<lparr>prod_id = 1, name = ''A'', description = Some ''d'', price = 50,
           stock_quantity = 10, created_at = 1700000000\<rparr>,
      shop\<lparr>statements := [SelectWhereId 1]\<rparr>)" .

  have "updateProduct whole_numbers (only_id 2) shop =
     (Inr \<lparr>prod_id = prod_id product_2, name = name product_2,
           description = description product_2,
           price = parseFloat whole_numbers (price product_2),
           stock_quantity = stock_quantity product_2, created_at = created_at product_2\<rparr>,
      shop\<lparr>statements := statements shop @ [SelectWhereId (in_id (only_id 2))]\<rparr>)"
    using zero_or_one_write [of "only_id 2" shop product_2 whole_numbers] read_2 by blast
  also have "\<dots> =
     (Inr \<lparr>prod_id = 2, name = ''C'', description = None, price = 7,
           stock_quantity = 3, created_at = 1700000001\<rparr>,
      shop\<lparr>statements := [SelectWhereId 2]\<rparr>)"
    by (simp add: only_id_def shop_def product_2_def whole_numbers_def parse_nat_def
        digit_value_def)
  finally show "updateProduct whole_numbers (only_id 2) shop =
     (Inr \<lparr>prod_id = 2, name = ''C'', description = None, price = 7,
           stock_quantity = 3, created_at = 1700000001\<rparr>,
      shop\<lparr>statements := [SelectWhereId 2]\<rparr>)" .

  have "writes (snd (updateProduct whole_numbers (only_id 2) shop)) = writes shop"
    using zero_or_one_write [of "only_id 2" shop product_2 whole_numbers] read_2 by blast
  with none_yet show "writes (snd (updateProduct whole_numbers (only_id 2) shop)) = 0"
    by simp

  have "writes (snd (updateProduct whole_numbers
      ((only_id 1)\<lparr>in_stock_quantity := Some 0\<rparr>) shop)) = writes shop + 1"
    using zero_or_one_write
      [of "(only_id 1)\<lparr>in_stock_quantity := Some 0\<rparr>" shop product_1 whole_numbers] write_1
    by blast
  with none_yet show "writes (snd (updateProduct whole_numbers
      ((only_id 1)\<lparr>in_stock_quantity := Some 0\<rparr>) shop)) = 1"
    by simp
qed

section \<open>Explicit null\<close>

text \<open>
  C5. For a stored product whose \<open>description\<close> is a text, a request for its \<open>id\<close> with
  \<open>description\<close> explicitly null (the store answering) forwards null in the change-set,
  leaves the stored \<open>description\<close> null, which is not what it was, and returns a
  product whose \<open>description\<close> is null; the same request with \<open>description\<close> omitted
  leaves the stored text in place. Null and omission are not collapsed.
\<close>

theorem explicit_null_clears_description:
  assumes "fault w = None" and "in_description input = Some None"
    and "i < length (products w)" and "prod_id (products w ! i) = in_id input"
    and "description (products w ! i) = Some d"
  shows "map_of (build_toUpdate X input) ''description'' = Some JsNull \<and>
    description (products (snd (updateProduct X input w)) ! i) = None \<and>
    description (products (snd (updateProduct X input w)) ! i) \<noteq> description (products w ! i) \<and>
    (\<exists>p. fst (updateProduct X input w) = Inr p \<and> description p = None) \<and>
    description (products (snd (updateProduct X (input\<lparr>in_description := None\<rparr>) w)) ! i) = Some d"
proof (intro conjI)
  from assms(2) have nonempty: "build_toUpdate X input \<noteq> []"
    by (simp add: build_toUpdate_Nil)
  from assms(2) show "map_of (build_toUpdate X input) ''description'' = Some JsNull"
    unfolding build_toUpdate_eq
    by (cases "in_name input"; cases "in_price input"; cases "in_stock_quantity input") simp_all
  from assms nonempty show stored: "description (products (snd (updateProduct X input w)) ! i) = None"
    by (simp add: products_updateProduct set_columns_build)
  from stored assms(5)
  show "description (products (snd (updateProduct X input w)) ! i) \<noteq> description (products w ! i)"
    by simp
  from assms(3,4) have "products w ! i \<in> set (filter (\<lambda>r. prod_id r = in_id input) (products w))"
    by simp
  then obtain r rs where "filter (\<lambda>r. prod_id r = in_id input) (products w) = r # rs"
    by (cases "filter (\<lambda>r. prod_id r = in_id input) (products w)") auto
  with assms(1,2) nonempty
  show "\<exists>p. fst (updateProduct X input w) = Inr p \<and> description p = None"
    by (simp add: outcome_updateProduct set_columns_build to_product_def)
  from assms(3,5)
  show "description (products (snd (updateProduct X (input\<lparr>in_description := None\<rparr>) w)) ! i) = Some d"
    by (simp add: products_updateProduct set_columns_build)
qed

theorem explicit_null_clears_description_witness:
  "description (products (snd (updateProduct whole_numbers
       ((only_id 1)\<lparr>in_description := Some None\<rparr>) shop)) ! 0) = None \<and>
   description (products shop ! 0) = Some ''d'' \<and>
   description (products (snd (updateProduct whole_numbers (only_id 1) shop)) ! 0) = Some ''d''"
  using explicit_null_clears_description
    [of shop "(only_id 1)\<lparr>in_description := Some None\<rparr>" 0 "''d''" whole_numbers]
  by (simp add: only_id_def shop_def product_1_def)

section \<open>Store failures\<close>

text \<open>
  C7. When the store fails on the statement, \<open>updateProduct\<close> fails with that same
  failure: it is printed once by \<open>console.error\<close>, as it is, and rethrown; the store has
  received the one statement and no second one (no retry), and the table is as before.
\<close>

theorem store_failure_propagates_unchanged:
  assumes "fault w = Some e"
  shows "updateProduct X input w =
     (Inl (StoreFailure e),
      w\<lparr>statements := statements w @
           [if build_toUpdate X input = [] then SelectWhereId (in_id input)
            else UpdateWhereId (in_id input) (build_toUpdate X input)],
        console := console w @ [(log_prefix (in_id input), StoreFailure e)]\<rparr>)"
  using assms
  by (simp add: updateProduct_def updateProduct_try_def db_select_def db_update_def
      console_error_def Let_def)

theorem store_failure_propagates_unchanged_witness:
  "updateProduct whole_numbers ((only_id 1)\<lparr>in_name := Some ''B''\<rparr>)
       (shop\<lparr>fault := Some ''connection refused''\<rparr>) =
     (Inl (StoreFailure ''connection refused''),
      shop\<lparr>fault := Some ''connection refused'',
           statements := [UpdateWhereId 1 [(''name'', JsString ''B'')]],
           console := [(''Error updating product with ID 1:'', StoreFailure ''connection refused'')]\<rparr>)"
  using store_failure_propagates_unchanged
    [of "shop\<lparr>fault := Some ''connection refused''\<rparr>" "''connection refused''" whole_numbers
        "(only_id 1)\<lparr>in_name := Some ''B''\<rparr>"]
  by (simp add: only_id_def shop_def build_toUpdate_eq log_prefix_def int_to_string_def
      nat_digits.simps digit_char_def)

section \<open>An absent id\<close>

text \<open>
  C8. For every request whose \<open>id\<close> matches no stored product, whatever fields it
  supplies (none included), the table after the call is the table before it: no record is
  created and none is modified. When the store answers, the call fails with the not-found
  error, whose message determines the \<open>id\<close>.
\<close>

theorem absent_id_fails_and_store_is_untouched:
  assumes "in_id input \<notin> prod_id ` set (products w)"
  shows "products (snd (updateProduct X input w)) = products w \<and>
    (fault w = None \<longrightarrow>
       fst (updateProduct X input w) = Inl (Error (not_found_message (in_id input)))) \<and>
    (\<forall>j. not_found_message j = not_found_message (in_id input) \<longrightarrow> j = in_id input)"
proof -
  from assms have none: "filter (\<lambda>r. prod_id r = in_id input) (products w) = []"
    by (simp add: filter_id_Nil)
  then have "products (snd (updateProduct X input w)) = products w"
    by (simp add: products_updateProduct map_no_match)
  moreover from none
  have "fault w = None \<longrightarrow>
       fst (updateProduct X input w) = Inl (Error (not_found_message (in_id input)))"
    by (simp add: outcome_updateProduct)
  ultimately show ?thesis
    using not_found_message_inj by blast
qed

theorem absent_id_fails_and_store_is_untouched_witness:
  "999 \<notin> prod_id ` set (products shop) \<and>
   products (snd (updateProduct whole_numbers ((only_id 999)\<lparr>in_name := Some ''B''\<rparr>) shop)) =
     products shop \<and>
   fst (updateProduct whole_numbers ((only_id 999)\<lparr>in_name := Some ''B''\<rparr>) shop) =
     Inl (Error ''Product with ID 999 not found.'') \<and>
   products (snd (updateProduct whole_numbers (only_id 999) shop)) = products shop \<and>
   fst (updateProduct whole_numbers (only_id 999) shop) =
     Inl (Error ''Product with ID 999 not found.'')"
  using absent_id_fails_and_store_is_untouched
      [of "(only_id 999)\<lparr>in_name := Some ''B''\<rparr>" shop whole_numbers]
    absent_id_fails_and_store_is_untouched [of "only_id 999" shop whole_numbers]
  by (simp add: only_id_def shop_def product_1_def product_2_def not_found_message_def
      int_to_string_def nat_digits.simps digit_char_def)

section \<open>Defined falsy values\<close>

text \<open>
  C10. Presence is decided by \<open>!== undefined\<close>, for every value: a \<open>stock_quantity\<close>
  \<open>q\<close> that is supplied, \<open>0\<close> included, and a \<open>name\<close> \<open>s\<close> that is supplied, the empty
  string included, is in the change-set with that value, goes to the store in an update
  statement, and is the stored value of every record of that \<open>id\<close> once the store has
  answered.
\<close>

theorem defined_falsy_values_are_written:
  "(in_stock_quantity input = Some q \<longrightarrow>
      map_of (build_toUpdate X input) ''stock_quantity'' = Some (JsNumber q) \<and>
      last (statements (snd (updateProduct X input w))) =
        UpdateWhereId (in_id input) (build_toUpdate X input) \<and>
      (fault w = None \<longrightarrow>
        (\<forall>r \<in> set (products (snd (updateProduct X input w))).
           prod_id r = in_id input \<longrightarrow> stock_quantity r = q))) \<and>
   (in_name input = Some s \<longrightarrow>
      map_of (build_toUpdate X input) ''name'' = Some (JsString s) \<and>
      last (statements (snd (updateProduct X input w))) =
        UpdateWhereId (in_id input) (build_toUpdate X input) \<and>
      (fault w = None \<longrightarrow>
        (\<forall>r \<in> set (products (snd (updateProduct X input w))).
           prod_id r = in_id input \<longrightarrow> name r = s)))"
proof (intro conjI impI)
  assume q: "in_stock_quantity input = Some q"
  then have nonempty: "build_toUpdate X input \<noteq> []"
    by (simp add: build_toUpdate_Nil)
  from q show "map_of (build_toUpdate X input) ''stock_quantity'' = Some (JsNumber q)"
    unfolding build_toUpdate_eq
    by (cases "in_name input"; cases "in_description input"; cases "in_price input") simp_all
  from nonempty show "last (statements (snd (updateProduct X input w))) =
        UpdateWhereId (in_id input) (build_toUpdate X input)"
    by (simp add: statements_updateProduct)
  assume "fault w = None"
  with q nonempty show "\<forall>r \<in> set (products (snd (updateProduct X input w))).
           prod_id r = in_id input \<longrightarrow> stock_quantity r = q"
    by (auto simp add: products_updateProduct set_columns_build)
next
  assume s: "in_name input = Some s"
  then have nonempty: "build_toUpdate X input \<noteq> []"
    by (simp add: build_toUpdate_Nil)
  from s show "map_of (build_toUpdate X input) ''name'' = Some (JsString s)"
    unfolding build_toUpdate_eq by simp
  from nonempty show "last (statements (snd (updateProduct X input w))) =
        UpdateWhereId (in_id input) (build_toUpdate X input)"
    by (simp add: statements_updateProduct)
  assume "fault w = None"
  with s nonempty show "\<forall>r \<in> set (products (snd (updateProduct X input w))).
           prod_id r = in_id input \<longrightarrow> name r = s"
    by (auto simp add: products_updateProduct set_columns_build)
qed

theorem defined_falsy_values_are_written_witness:
  "products (snd (updateProduct whole_numbers
       ((only_id 1)\<lparr>in_name := Some '''', in_stock_quantity := Some 0\<rparr>) shop)) =
     [product_1\<lparr>name := '''', stock_quantity := 0\<rparr>, product_2] \<and>
   map_of (build_toUpdate whole_numbers
       ((only_id 1)\<lparr>in_name := Some '''', in_stock_quantity := Some 0\<rparr>)) ''stock_quantity'' =
     Some (JsNumber 0) \<and>
   map_of (build_toUpdate whole_numbers
       ((only_id 1)\<lparr>in_name := Some '''', in_stock_quantity := Some 0\<rparr>)) ''name'' =
     Some (JsString '''')"
proof (intro conjI)
  show "products (snd (updateProduct whole_numbers
       ((only_id 1)\<lparr>in_name := Some '''', in_stock_quantity := Some 0\<rparr>) shop)) =
     [product_1\<lparr>name := '''', stock_quantity := 0\<rparr>, product_2]"
    by (simp add: products_updateProduct set_columns_build build_toUpdate_Nil
        only_id_def shop_def product_1_def product_2_def)
  show "map_of (build_toUpdate whole_numbers
       ((only_id 1)\<lparr>in_name := Some '''', in_stock_quantity := Some 0\<rparr>)) ''stock_quantity'' =
     Some (JsNumber 0)"
    using defined_falsy_values_are_written
      [of "(only_id 1)\<lparr>in_name := Some '''', in_stock_quantity := Some 0\<rparr>" 0 whole_numbers
          shop "''''"]
    by (simp add: only_id_def)
  show "map_of (build_toUpdate whole_numbers
       ((only_id 1)\<lparr>in_name := Some '''', in_stock_quantity := Some 0\<rparr>)) ''name'' =
     Some (JsString '''')"
    using defined_falsy_values_are_written
      [of "(only_id 1)\<lparr>in_name := Some '''', in_stock_quantity := Some 0\<rparr>" 0 whole_numbers
          shop "''''"]
    by (simp add: only_id_def)
qed

end
